theory Spec2Isabelle
  imports Complex_Main
begin

section \<open>Values, columns and tables\<close>

text \<open>
  The script \<^verbatim>\<open>bank_analysis.py\<close> builds one pandas table from a literal dictionary and
  then inspects it. A Python \<^verbatim>\<open>str\<close> is a sequence of Unicode code points, so a string is
  modelled as the list of its code points; the script's literals lie outside ASCII and are
  written here by their code points, each with its \<^verbatim>\<open>U+\<close> form in a comment.
\<close>

type_synonym str = "int list"

definition ascii :: "string \<Rightarrow> str" where
  "ascii s = map of_char s"

text \<open>
  A cell of a table holds an integer, a string, or the missing value (\<^verbatim>\<open>None\<close>/\<^verbatim>\<open>NaN\<close>).
\<close>

datatype cell = IntV int | StrV str | NaN

datatype error = ValueError | KeyError | TypeError

datatype dtype = Int64 | Float64 | Object | Category

text \<open>
  A column is either a plain array of cells or a categorical: the list of categories and,
  for every row, the code of its category (\<open>-1\<close> for a missing value).
\<close>

datatype series = Plain "cell list" | Categorical "cell list" "int list"

record dataframe =
  index :: "nat list"
  columns :: "(str \<times> series) list"

text \<open>The values a dictionary literal can hold per key: a \<^verbatim>\<open>range\<close> or a list.\<close>

datatype pyseq = PyRange int int | PyList "cell list"

fun bind :: "error + 'a \<Rightarrow> ('a \<Rightarrow> error + 'b) \<Rightarrow> error + 'b" where
  "bind (Inl e) f = Inl e"
| "bind (Inr x) f = f x"

fun traverse :: "('a \<Rightarrow> error + 'b) \<Rightarrow> 'a list \<Rightarrow> error + 'b list" where
  "traverse f [] = Inr []"
| "traverse f (x # xs) =
     (case f x of Inl e \<Rightarrow> Inl e
      | Inr y \<Rightarrow> (case traverse f xs of Inl e \<Rightarrow> Inl e | Inr ys \<Rightarrow> Inr (y # ys)))"

subsection \<open>Reading a column\<close>

fun decode :: "cell list \<Rightarrow> int \<Rightarrow> cell" where
  "decode cats c = (if 0 \<le> c \<and> nat c < length cats then cats ! nat c else NaN)"

fun series_values :: "series \<Rightarrow> cell list" where
  "series_values (Plain xs) = xs"
| "series_values (Categorical cats codes) = map (decode cats) codes"

fun is_int :: "cell \<Rightarrow> bool" where
  "is_int (IntV _) = True"
| "is_int _ = False"

fun dtype_of :: "series \<Rightarrow> dtype" where
  "dtype_of (Categorical _ _) = Category"
| "dtype_of (Plain xs) =
     (if xs \<noteq> [] \<and> list_all is_int xs then Int64
      else if xs \<noteq> [] \<and> list_all (\<lambda>c. is_int c \<or> c = NaN) xs then Float64
      else Object)"

definition dtypes :: "dataframe \<Rightarrow> (str \<times> dtype) list" where
  "dtypes df = map (\<lambda>(k, s). (k, dtype_of s)) (columns df)"

definition row_at :: "dataframe \<Rightarrow> nat \<Rightarrow> cell list" where
  "row_at df i = map (\<lambda>(k, s). series_values s ! i) (columns df)"

definition rows :: "dataframe \<Rightarrow> cell list list" where
  "rows df = map (row_at df) [0..<length (index df)]"

definition getitem :: "dataframe \<Rightarrow> str \<Rightarrow> error + series" where
  "getitem df k = (case map_of (columns df) k of None \<Rightarrow> Inl KeyError | Some s \<Rightarrow> Inr s)"

subsection \<open>The table constructor\<close>

text \<open>
  \<^verbatim>\<open>pd.DataFrame(data)\<close> on a dictionary of sequences: one column per key, in the order of
  the keys, and the default index \<open>0, 1, ...\<close>. Sequences of different lengths raise
  \<^verbatim>\<open>ValueError\<close>.
\<close>

fun seq_values :: "pyseq \<Rightarrow> cell list" where
  "seq_values (PyRange a b) = map IntV [a..b - 1]"
| "seq_values (PyList xs) = xs"

definition DataFrame :: "(str \<times> pyseq) list \<Rightarrow> error + dataframe" where
  "DataFrame d =
     (let cols = map (\<lambda>(k, v). (k, seq_values v)) d;
          lens = map (\<lambda>(k, xs). length xs) cols
      in case lens of
           [] \<Rightarrow> Inr \<lparr>index = [], columns = []\<rparr>
         | n # ns \<Rightarrow>
             if list_all (\<lambda>m. m = n) ns
             then Inr \<lparr>index = [0..<n], columns = map (\<lambda>(k, xs). (k, Plain xs)) cols\<rparr>
             else Inl ValueError)"

section \<open>Step 1: the literal dataset\<close>

text \<open>Column names and labels of the script, by code points.\<close>

definition col_id :: str where
  \<comment> \<open>U+4EA4 U+6613 I D, the transaction id\<close>
  "col_id = [20132, 26131, 73, 68]"

definition col_customer :: str where
  \<comment> \<open>U+5BA2 U+6237 I D, the customer id\<close>
  "col_customer = [23458, 25143, 73, 68]"

definition col_type :: str where
  \<comment> \<open>U+4EA4 U+6613 U+7C7B U+578B, the transaction type\<close>
  "col_type = [20132, 26131, 31867, 22411]"

definition col_amount :: str where
  \<comment> \<open>U+4EA4 U+6613 U+91D1 U+989D, the transaction amount\<close>
  "col_amount = [20132, 26131, 37329, 39069]"

definition col_channel :: str where
  \<comment> \<open>U+4EA4 U+6613 U+6E20 U+9053, the transaction channel\<close>
  "col_channel = [20132, 26131, 28192, 36947]"

definition col_status :: str where
  \<comment> \<open>U+4EA4 U+6613 U+72B6 U+6001, the transaction status\<close>
  "col_status = [20132, 26131, 29366, 24577]"

definition deposit :: cell where
  \<comment> \<open>U+5B58 U+6B3E\<close>
  "deposit = StrV [23384, 27454]"

definition withdrawal :: cell where
  \<comment> \<open>U+53D6 U+6B3E\<close>
  "withdrawal = StrV [21462, 27454]"

definition transfer :: cell where
  \<comment> \<open>U+8F6C U+8D26\<close>
  "transfer = StrV [36716, 36134]"

definition online :: cell where
  \<comment> \<open>U+7F51 U+94F6, online banking\<close>
  "online = StrV [32593, 38134]"

definition atm :: cell where
  "atm = StrV (ascii ''ATM'')"

definition mobile :: cell where
  \<comment> \<open>U+624B U+673A U+94F6 U+884C, mobile banking\<close>
  "mobile = StrV [25163, 26426, 38134, 34892]"

definition counter :: cell where
  \<comment> \<open>U+67DC U+53F0\<close>
  "counter = StrV [26588, 21488]"

definition success :: cell where
  \<comment> \<open>U+6210 U+529F\<close>
  "success = StrV [25104, 21151]"

definition failure :: cell where
  \<comment> \<open>U+5931 U+8D25\<close>
  "failure = StrV [22833, 36133]"

definition customer :: "string \<Rightarrow> cell" where
  "customer s = StrV (ascii s)"

definition data :: "(str \<times> pyseq) list" where
  "data =
    [(col_id, PyRange 1001 1021),
     (col_customer, PyList (map customer
        [''C1001'', ''C1002'', ''C1001'', ''C1003'', ''C1004'',
         ''C1002'', ''C1005'', ''C1003'', ''C1006'', ''C1007'',
         ''C1008'', ''C1004'', ''C1009'', ''C1010'', ''C1005'',
         ''C1001'', ''C1006'', ''C1011'', ''C1002'', ''C1003''])),
     (col_type, PyList
        [deposit, withdrawal, transfer, deposit, withdrawal,
         transfer, deposit, withdrawal, deposit, transfer,
         withdrawal, deposit, transfer, deposit, withdrawal,
         transfer, deposit, withdrawal, deposit, transfer]),
     (col_amount, PyList (map IntV
        [5000, -2000, -1500, 8000, -500, -3000, 12000, -2200, 6000, -4000,
         -1000, 7000, -2500, 9000, -1200, -3500, 4500, -800, 3000, -1500])),
     (col_channel, PyList
        [online, atm, mobile, counter, atm,
         online, mobile, counter, online, mobile,
         atm, counter, online, mobile, atm,
         mobile, counter, atm, online, counter]),
     (col_status, PyList
        [success, success, success, success, failure,
         success, success, success, success, success,
         success, success, success, success, success,
         success, success, success, success, success])]"

section \<open>Step 2: the cleaner\<close>

subsection \<open>Missing values and duplicated rows\<close>

text \<open>
  \<^verbatim>\<open>df.isnull().sum()\<close>: the table of null flags, then per column the number of flags set.
\<close>

definition isnull :: "dataframe \<Rightarrow> (str \<times> bool list) list" where
  "isnull df = map (\<lambda>(k, s). (k, map (\<lambda>c. c = NaN) (series_values s))) (columns df)"

definition sum_bool :: "bool list \<Rightarrow> nat" where
  "sum_bool bs = length (filter (\<lambda>b. b) bs)"

definition isnull_sum :: "dataframe \<Rightarrow> (str \<times> nat) list" where
  "isnull_sum df = map (\<lambda>(k, bs). (k, sum_bool bs)) (isnull df)"

text \<open>
  \<^verbatim>\<open>df.duplicated()\<close> flags a row when an earlier row has the same value in every column;
  the index label is not part of the comparison.
\<close>

fun duplicated_from :: "cell list list \<Rightarrow> cell list list \<Rightarrow> bool list" where
  "duplicated_from seen [] = []"
| "duplicated_from seen (r # rs) = (r \<in> set seen) # duplicated_from (r # seen) rs"

definition duplicated :: "dataframe \<Rightarrow> bool list" where
  "duplicated df = duplicated_from [] (rows df)"

definition duplicate_rows :: "dataframe \<Rightarrow> nat" where
  "duplicate_rows df = sum_bool (duplicated df)"

subsection \<open>Comparisons and boolean selection\<close>

text \<open>
  Comparing a column with a number: a missing value compares false, a string raises
  \<^verbatim>\<open>TypeError\<close>, and so does an unordered categorical.
\<close>

fun cell_gt :: "cell \<Rightarrow> int \<Rightarrow> error + bool" where
  "cell_gt (IntV i) k = Inr (i > k)"
| "cell_gt NaN k = Inr False"
| "cell_gt (StrV s) k = Inl TypeError"

fun cell_lt :: "cell \<Rightarrow> int \<Rightarrow> error + bool" where
  "cell_lt (IntV i) k = Inr (i < k)"
| "cell_lt NaN k = Inr False"
| "cell_lt (StrV s) k = Inl TypeError"

fun series_gt :: "series \<Rightarrow> int \<Rightarrow> error + bool list" where
  "series_gt (Plain xs) k = traverse (\<lambda>c. cell_gt c k) xs"
| "series_gt (Categorical cats codes) k = Inl TypeError"

fun series_lt :: "series \<Rightarrow> int \<Rightarrow> error + bool list" where
  "series_lt (Plain xs) k = traverse (\<lambda>c. cell_lt c k) xs"
| "series_lt (Categorical cats codes) k = Inl TypeError"

definition series_eq :: "series \<Rightarrow> cell \<Rightarrow> bool list" where
  "series_eq s v = map (\<lambda>c. c \<noteq> NaN \<and> c = v) (series_values s)"

definition mask_or :: "bool list \<Rightarrow> bool list \<Rightarrow> bool list" where
  "mask_or a b = map (\<lambda>(x, y). x \<or> y) (zip a b)"

definition select :: "bool list \<Rightarrow> 'a list \<Rightarrow> 'a list" where
  "select m xs = map snd (filter fst (zip m xs))"

fun series_select :: "bool list \<Rightarrow> series \<Rightarrow> series" where
  "series_select m (Plain xs) = Plain (select m xs)"
| "series_select m (Categorical cats codes) = Categorical cats (select m codes)"

text \<open>
  \<^verbatim>\<open>df[mask]\<close>: the rows whose flag is set, with their index labels; the table itself is not
  changed. A mask of another length raises.
\<close>

definition getitem_mask :: "dataframe \<Rightarrow> bool list \<Rightarrow> error + dataframe" where
  "getitem_mask df m =
     (if length m \<noteq> length (index df) then Inl ValueError
      else Inr \<lparr>index = select m (index df),
                columns = map (\<lambda>(k, s). (k, series_select m s)) (columns df)\<rparr>)"

definition empty_frame :: "dataframe \<Rightarrow> bool" where
  "empty_frame df = (index df = [] \<or> columns df = [])"

subsection \<open>Outliers\<close>

text \<open>
  \<^verbatim>\<open>abnormal = df[(df[amount] > 10000) | (df[amount] < -5000)]\<close>, then the rows are printed
  when there are any, and a fixed message otherwise.
\<close>

definition abnormal :: "dataframe \<Rightarrow> error + dataframe" where
  "abnormal df =
     bind (getitem df col_amount) (\<lambda>a.
     bind (series_gt a 10000) (\<lambda>hi.
     bind (getitem df col_amount) (\<lambda>b.
     bind (series_lt b (- 5000)) (\<lambda>lo.
     getitem_mask df (mask_or hi lo)))))"

datatype printed =
    PrintCounts "(str \<times> nat) list"
  | PrintDuplicates nat
  | PrintFrame dataframe
  | PrintText str
  | PrintDtypes "(str \<times> dtype) list"

definition no_outliers_message :: str where
  \<comment> \<open>U+672A U+53D1 U+73B0 U+5B9A U+4E49 U+7684 U+5F02 U+5E38 U+503C U+3002\<close>
  "no_outliers_message =
     [26410, 21457, 29616, 23450, 20041, 30340, 24322, 24120, 20540, 12290]"

definition report_abnormal :: "dataframe \<Rightarrow> printed" where
  "report_abnormal ab =
     (if \<not> empty_frame ab then PrintFrame ab else PrintText no_outliers_message)"

subsection \<open>Retyping a column as categorical\<close>

text \<open>
  \<^verbatim>\<open>astype('category')\<close>: the categories are the distinct non-missing values in sorted
  order (strings by code point, numbers before strings), and every cell is replaced by the
  position of its value among the categories.
\<close>

fun str_le :: "str \<Rightarrow> str \<Rightarrow> bool" where
  "str_le [] t = True"
| "str_le (x # xs) [] = False"
| "str_le (x # xs) (y # ys) = (x < y \<or> (x = y \<and> str_le xs ys))"

fun cell_le :: "cell \<Rightarrow> cell \<Rightarrow> bool" where
  "cell_le (IntV i) (IntV j) = (i \<le> j)"
| "cell_le (IntV i) (StrV t) = True"
| "cell_le (StrV s) (IntV j) = False"
| "cell_le (StrV s) (StrV t) = str_le s t"
| "cell_le c NaN = True"
| "cell_le NaN c = False"

fun insort_cell :: "cell \<Rightarrow> cell list \<Rightarrow> cell list" where
  "insort_cell x [] = [x]"
| "insort_cell x (y # ys) = (if cell_le x y then x # y # ys else y # insort_cell x ys)"

fun sort_cells :: "cell list \<Rightarrow> cell list" where
  "sort_cells [] = []"
| "sort_cells (x # xs) = insort_cell x (sort_cells xs)"

fun position :: "cell list \<Rightarrow> cell \<Rightarrow> nat" where
  "position [] x = 0"
| "position (y # ys) x = (if x = y then 0 else Suc (position ys x))"

definition encode :: "cell list \<Rightarrow> cell \<Rightarrow> int" where
  "encode cats x = (if x = NaN then - 1 else int (position cats x))"

definition unique_sorted :: "cell list \<Rightarrow> cell list" where
  "unique_sorted xs = sort_cells (remdups (filter (\<lambda>c. c \<noteq> NaN) xs))"

fun astype_category :: "series \<Rightarrow> series" where
  "astype_category (Plain xs) =
     (let cats = unique_sorted xs in Categorical cats (map (encode cats) xs))"
| "astype_category (Categorical cats codes) = Categorical cats codes"

text \<open>
  \<^verbatim>\<open>df[k] = s\<close> replaces the column \<open>k\<close> in place, or appends it when the table has no such
  column; a column of another length raises.
\<close>

fun update_column :: "str \<Rightarrow> series \<Rightarrow> (str \<times> series) list \<Rightarrow> (str \<times> series) list" where
  "update_column k s [] = [(k, s)]"
| "update_column k s ((k', s') # cs) =
     (if k = k' then (k, s) # cs else (k', s') # update_column k s cs)"

definition setitem :: "dataframe \<Rightarrow> str \<Rightarrow> series \<Rightarrow> error + dataframe" where
  "setitem df k s =
     (if length (series_values s) \<noteq> length (index df) then Inl ValueError
      else Inr (df\<lparr>columns := update_column k s (columns df)\<rparr>))"

subsection \<open>The cleaning stage\<close>

text \<open>
  The stage in the order of the script: the missing-value counts, the number of duplicated
  rows, the outlier report, the two retypings, and the column types. It returns the table as
  the later stages see it, and what was printed. The headings printed between the steps
  carry no data and are left out.
\<close>

definition cleaner :: "dataframe \<Rightarrow> error + (dataframe \<times> printed list)" where
  "cleaner df =
     bind (abnormal df) (\<lambda>ab.
     bind (getitem df col_type) (\<lambda>t.
     bind (setitem df col_type (astype_category t)) (\<lambda>df1.
     bind (getitem df1 col_channel) (\<lambda>c.
     bind (setitem df1 col_channel (astype_category c)) (\<lambda>df2.
     Inr (df2,
          [PrintCounts (isnull_sum df),
           PrintDuplicates (duplicate_rows df),
           report_abnormal ab,
           PrintDtypes (dtypes df2)]))))))"

section \<open>Step 3: the analyzer\<close>

subsection \<open>Grouping by transaction type\<close>

text \<open>
  \<^verbatim>\<open>df.groupby(by)[col]\<close>: one group per key, in the order of the categories of a
  categorical key (of the sorted distinct values otherwise); a group holds the index label
  and the value of every row with that key. Rows with a missing key belong to no group.
\<close>

fun group_keys :: "series \<Rightarrow> cell list" where
  "group_keys (Categorical cats codes) = cats"
| "group_keys (Plain xs) = unique_sorted xs"

definition members :: "cell list \<Rightarrow> (nat \<times> cell) list \<Rightarrow> cell \<Rightarrow> (nat \<times> cell) list" where
  "members ks ivs g = map snd (filter (\<lambda>(k, iv). k = g) (zip ks ivs))"

definition groupby :: "dataframe \<Rightarrow> str \<Rightarrow> str \<Rightarrow> error + (cell \<times> (nat \<times> cell) list) list" where
  "groupby df by col =
     bind (getitem df by) (\<lambda>ks.
     bind (getitem df col) (\<lambda>vs.
     Inr (map (\<lambda>g. (g, members (series_values ks) (zip (index df) (series_values vs)) g))
              (group_keys ks))))"

text \<open>
  \<^verbatim>\<open>.agg(['count', 'sum', 'mean']).round(2)\<close>: missing values are skipped, a string raises.
  Count and sum are integers, which rounding leaves alone. The mean is a binary floating
  point number in the script; here it is the exact quotient, rounded half to even at two
  decimals, and absent for a group without values.
\<close>

record agg_row =
  count_agg :: nat
  sum_agg :: int
  mean_agg :: "rat option"

fun numeric :: "cell \<Rightarrow> error + int list" where
  "numeric (IntV i) = Inr [i]"
| "numeric NaN = Inr []"
| "numeric (StrV s) = Inl TypeError"

definition round_half_even :: "rat \<Rightarrow> int" where
  "round_half_even q =
     (let f = \<lfloor>q\<rfloor>; d = q - of_int f
      in if d < 1 / 2 then f else if 1 / 2 < d then f + 1 else if even f then f else f + 1)"

definition round2 :: "rat \<Rightarrow> rat" where
  "round2 q = of_int (round_half_even (q * 100)) / 100"

definition agg :: "cell list \<Rightarrow> error + agg_row" where
  "agg vs =
     bind (traverse numeric vs) (\<lambda>ns.
       let xs = concat ns; n = length xs; s = sum_list xs
       in Inr \<lparr>count_agg = n, sum_agg = s,
               mean_agg = (if n = 0 then None else Some (round2 (of_int s / of_nat n)))\<rparr>)"

definition type_summary :: "dataframe \<Rightarrow> error + (cell \<times> agg_row) list" where
  "type_summary df =
     bind (groupby df col_type col_amount) (\<lambda>gs.
     traverse (\<lambda>(g, m). bind (agg (map snd m)) (\<lambda>a. Inr (g, a))) gs)"

subsection \<open>Counting by channel\<close>

text \<open>
  \<^verbatim>\<open>value_counts()\<close>: for every category (for a plain column, every distinct non-missing
  value in order of first appearance) the number of rows holding it, then sorted by
  descending count. Entries of equal count keep their order.
\<close>

fun insort_desc :: "(cell \<times> nat) \<Rightarrow> (cell \<times> nat) list \<Rightarrow> (cell \<times> nat) list" where
  "insort_desc x [] = [x]"
| "insort_desc x (y # ys) =
     (if snd y \<le> snd x then x # y # ys else y # insort_desc x ys)"

fun sort_desc :: "(cell \<times> nat) list \<Rightarrow> (cell \<times> nat) list" where
  "sort_desc [] = []"
| "sort_desc (x # xs) = insort_desc x (sort_desc xs)"

fun count_keys :: "series \<Rightarrow> cell list" where
  "count_keys (Categorical cats codes) = cats"
| "count_keys (Plain xs) = rev (remdups (rev (filter (\<lambda>c. c \<noteq> NaN) xs)))"

definition occurrences :: "cell list \<Rightarrow> cell \<Rightarrow> nat" where
  "occurrences xs g = length (filter (\<lambda>c. c = g) xs)"

definition value_counts :: "series \<Rightarrow> (cell \<times> nat) list" where
  "value_counts s =
     sort_desc (map (\<lambda>g. (g, occurrences (series_values s) g)) (count_keys s))"

definition channel_count :: "dataframe \<Rightarrow> error + (cell \<times> nat) list" where
  "channel_count df = bind (getitem df col_channel) (\<lambda>s. Inr (value_counts s))"

subsection \<open>Failed transactions\<close>

definition failed_transactions :: "dataframe \<Rightarrow> error + dataframe" where
  "failed_transactions df =
     bind (getitem df col_status) (\<lambda>s. getitem_mask df (series_eq s failure))"

section \<open>The script\<close>

text \<open>
  The table as built in step 1, and the table as steps 3 and 4 see it. The descriptive
  statistics of step 3 and the charts of step 4 compute in floating point and draw; they are
  not part of this development.
\<close>

definition df_generated :: "error + dataframe" where
  "df_generated = DataFrame data"

definition df_cleaned :: "error + dataframe" where
  "df_cleaned = bind df_generated (\<lambda>df. bind (cleaner df) (\<lambda>(df', out). Inr df'))"

text \<open>Readers used to state what a table holds.\<close>

definition n_rows :: "dataframe \<Rightarrow> nat" where
  "n_rows df = length (index df)"

definition column_values :: "str \<Rightarrow> dataframe \<Rightarrow> error + cell list" where
  "column_values k df = bind (getitem df k) (\<lambda>s. Inr (series_values s))"

fun positive :: "cell \<Rightarrow> bool" where
  "positive (IntV i) = (0 < i)"
| "positive c = False"

fun negative :: "cell \<Rightarrow> bool" where
  "negative (IntV i) = (i < 0)"
| "negative c = False"

section \<open>General facts about the table operations\<close>

lemma bind_eq_Inr: "bind m f = Inr y \<longleftrightarrow> (\<exists>x. m = Inr x \<and> f x = Inr y)"
  by (cases m) auto

subsection \<open>Counting flags\<close>

lemma sum_bool_flags: "sum_bool (map (\<lambda>c. c = v) xs) = occurrences xs v"
  by (induction xs) (auto simp: sum_bool_def occurrences_def)

lemma isnull_sum_counts:
  "isnull_sum df = map (\<lambda>(k, s). (k, occurrences (series_values s) NaN)) (columns df)"
  by (simp add: isnull_sum_def isnull_def sum_bool_flags split_def comp_def)

subsection \<open>Duplicated rows\<close>

text \<open>
  A row is flagged exactly when an earlier row agrees with it in every column, so the number
  of flagged rows is the number of rows less the number of different rows, and it is zero
  exactly when no two rows of the table are the same.
\<close>

lemma duplicated_from_flags:
  "duplicated_from seen rs =
     map (\<lambda>i. rs ! i \<in> set seen \<union> set (take i rs)) [0..<length rs]"
proof (induction rs arbitrary: seen)
  case Nil
  show ?case by simp
next
  case (Cons r rs)
  have "map (\<lambda>i. (r # rs) ! i \<in> set seen \<union> set (take i (r # rs))) [0..<length (r # rs)]
        = (r \<in> set seen) #
          map (\<lambda>i. rs ! i \<in> set (r # seen) \<union> set (take i rs)) [0..<length rs]"
    by (auto simp add: upt_conv_Cons map_Suc_upt[symmetric] simp del: upt_Suc)
  with Cons.IH[of "r # seen"] show ?case by simp
qed

lemma duplicated_from_count:
  "sum_bool (duplicated_from seen rs) + card (set seen \<union> set rs)
     = length rs + card (set seen)"
proof (induction rs arbitrary: seen)
  case Nil
  show ?case by (simp add: sum_bool_def)
next
  case (Cons r rs)
  show ?case
  proof (cases "r \<in> set seen")
    case True
    then have "set (r # seen) = set seen" and "set seen \<union> set (r # rs) = set seen \<union> set rs"
      by auto
    with Cons.IH[of "r # seen"] True show ?thesis
      by (simp add: sum_bool_def)
  next
    case False
    have u: "set seen \<union> set (r # rs) = set (r # seen) \<union> set rs" by auto
    from False have "card (set (r # seen)) = Suc (card (set seen))" by simp
    with Cons.IH[of "r # seen"] False u show ?thesis
      by (simp add: sum_bool_def)
  qed
qed

lemma duplicated_flags:
  "duplicated df = map (\<lambda>i. rows df ! i \<in> set (take i (rows df))) [0..<length (rows df)]"
  by (simp add: duplicated_def duplicated_from_flags)

lemma duplicate_rows_count:
  "duplicate_rows df + card (set (rows df)) = length (rows df)"
  using duplicated_from_count[of "[]" "rows df"]
  by (simp add: duplicate_rows_def duplicated_def)

lemma duplicate_rows_zero: "(duplicate_rows df = 0) = distinct (rows df)"
proof
  assume "duplicate_rows df = 0"
  with duplicate_rows_count[of df] have "card (set (rows df)) = length (rows df)" by simp
  then show "distinct (rows df)" by (rule card_distinct)
next
  assume "distinct (rows df)"
  then have "card (set (rows df)) = length (rows df)" by (rule distinct_card)
  with duplicate_rows_count[of df] show "duplicate_rows df = 0" by simp
qed

subsection \<open>Retyping keeps the values\<close>

lemma set_insort_cell: "set (insort_cell x ys) = insert x (set ys)"
  by (induction ys) auto

lemma set_sort_cells: "set (sort_cells xs) = set xs"
  by (induction xs) (auto simp: set_insort_cell)

lemma set_unique_sorted: "set (unique_sorted xs) = {c \<in> set xs. c \<noteq> NaN}"
  by (auto simp: unique_sorted_def set_sort_cells)

lemma position_less: "x \<in> set ys \<Longrightarrow> position ys x < length ys"
  by (induction ys) auto

lemma nth_position: "x \<in> set ys \<Longrightarrow> ys ! position ys x = x"
  by (induction ys) auto

lemma decode_encode:
  assumes "x \<noteq> NaN \<longrightarrow> x \<in> set cats"
  shows "decode cats (encode cats x) = x"
proof (cases "x = NaN")
  case True
  then show ?thesis by (simp add: encode_def)
next
  case False
  with assms have "x \<in> set cats" by simp
  then show ?thesis
    using False by (simp add: encode_def position_less nth_position)
qed

lemma astype_category_values: "series_values (astype_category s) = series_values s"
proof (cases s)
  case (Plain xs)
  have "decode (unique_sorted xs) (encode (unique_sorted xs) x) = x" if "x \<in> set xs" for x
    using that by (intro decode_encode) (simp add: set_unique_sorted)
  then have "map (\<lambda>x. decode (unique_sorted xs) (encode (unique_sorted xs) x)) xs = xs"
    by (simp add: map_idI)
  then show ?thesis using Plain by (simp add: Let_def comp_def del: decode.simps)
next
  case (Categorical cats codes)
  then show ?thesis by simp
qed

lemma update_column_keys:
  "map_of cs k = Some s \<Longrightarrow> map fst (update_column k s' cs) = map fst cs"
  by (induction cs) (auto split: if_splits)

lemma update_column_cells:
  "map_of cs k = Some s \<Longrightarrow> series_values s' = series_values s \<Longrightarrow>
   map (\<lambda>(k, s). series_values s ! i) (update_column k s' cs) =
   map (\<lambda>(k, s). series_values s ! i) cs"
  by (induction cs) (auto split: if_splits)

lemma retype_rows:
  assumes "getitem df k = Inr s" and "setitem df k (astype_category s) = Inr df'"
  shows "rows df' = rows df \<and> index df' = index df \<and>
         map fst (columns df') = map fst (columns df)"
proof -
  from assms(1) have m: "map_of (columns df) k = Some s"
    by (simp add: getitem_def split: option.splits)
  from assms(2) have d: "df' = df\<lparr>columns := update_column k (astype_category s) (columns df)\<rparr>"
    by (simp add: setitem_def split: if_splits)
  show ?thesis
    using update_column_cells[OF m astype_category_values] update_column_keys[OF m]
    by (simp add: d rows_def row_at_def)
qed

text \<open>
  Whatever table the cleaning stage is given, the table it hands on has the same index, the
  same column names and the same value in every cell.
\<close>

lemma cleaner_preserves_rows:
  assumes "cleaner df = Inr (df', out)"
  shows "rows df' = rows df \<and> index df' = index df \<and>
         map fst (columns df') = map fst (columns df)"
proof -
  from assms obtain ab t df1 c where
    t: "getitem df col_type = Inr t" and
    s1: "setitem df col_type (astype_category t) = Inr df1" and
    c: "getitem df1 col_channel = Inr c" and
    s2: "setitem df1 col_channel (astype_category c) = Inr df'"
    by (auto simp: cleaner_def bind_eq_Inr)
  from retype_rows[OF t s1] retype_rows[OF c s2] show ?thesis by simp
qed

subsection \<open>Counting values\<close>

lemma set_insort_desc: "set (insort_desc x ys) = insert x (set ys)"
  by (induction ys) auto

lemma set_sort_desc: "set (sort_desc xs) = set xs"
  by (induction xs) (auto simp: set_insort_desc)

lemma sorted_insort_desc:
  "sorted_wrt (\<lambda>a b. snd b \<le> snd a) ys \<Longrightarrow>
   sorted_wrt (\<lambda>a b. snd b \<le> snd a) (insort_desc x ys)"
  by (induction ys) (auto simp: set_insort_desc)

lemma sorted_sort_desc: "sorted_wrt (\<lambda>a b. snd b \<le> snd a) (sort_desc xs)"
  by (induction xs) (auto simp: sorted_insort_desc)

lemma value_counts_descending: "sorted_wrt (\<lambda>a b. snd b \<le> snd a) (value_counts s)"
  by (simp add: value_counts_def sorted_sort_desc)

lemma value_counts_entries:
  "set (value_counts s) = (\<lambda>g. (g, occurrences (series_values s) g)) ` set (count_keys s)"
  by (simp add: value_counts_def set_sort_desc)

lemma value_counts_counts:
  "map snd (value_counts s) = map (occurrences (series_values s)) (map fst (value_counts s))"
  using value_counts_entries[of s] by (auto simp: map_eq_conv)

lemma decode_in_cats: "decode cats c \<noteq> NaN \<Longrightarrow> decode cats c \<in> set cats"
  by (auto split: if_splits)

lemma values_in_count_keys:
  "set (filter (\<lambda>c. c \<noteq> NaN) (series_values s)) \<subseteq> set (count_keys s)"
  by (cases s) (auto dest: decode_in_cats simp del: decode.simps)

lemma value_counts_complete:
  "set (filter (\<lambda>c. c \<noteq> NaN) (series_values s)) \<subseteq> fst ` set (value_counts s)"
  using values_in_count_keys[of s] by (force simp: value_counts_entries image_image)

lemma channel_count_value_counts:
  "channel_count df = map_sum id value_counts (getitem df col_channel)"
  by (cases "getitem df col_channel") (simp_all add: channel_count_def)

subsection \<open>Grouping\<close>

text \<open>
  When the group keys are distinct and every key of the column is among them, each row
  falls in exactly one group: the sizes of the groups add up to the number of rows.
\<close>

lemma length_members:
  "length ks = length ivs \<Longrightarrow> length (members ks ivs g) = count_list ks g"
proof (induction ks arbitrary: ivs)
  case Nil
  then show ?case by (simp add: members_def)
next
  case (Cons k ks)
  then obtain iv ivs' where "ivs = iv # ivs'" by (cases ivs) auto
  with Cons show ?case by (auto simp: members_def)
qed

lemma groups_cover_rows:
  assumes "distinct gs" and "set ks \<subseteq> set gs" and "length ks = length ivs"
  shows "sum_list (map (\<lambda>g. length (members ks ivs g)) gs) = length ivs"
proof -
  have "sum_list (map (\<lambda>g. length (members ks ivs g)) gs) = sum_list (map (count_list ks) gs)"
    using assms(3) by (simp add: length_members)
  also have "\<dots> = sum (count_list ks) (set gs)"
    using assms(1) by (simp add: sum_list_distinct_conv_sum_set)
  also have "\<dots> = length ks"
    using assms(2) by (simp add: sum_count_set)
  finally show ?thesis using assms(3) by simp
qed

section \<open>The script on its dataset\<close>

subsection \<open>Step 1\<close>

text \<open>
  C3. The table built from the literal dictionary has exactly 20 rows and exactly 6 columns,
  and its transaction id column holds the integers 1001, 1002, ..., 1020 in this order.
\<close>

theorem generated_table_shape:
  "bind df_generated (\<lambda>df. Inr (n_rows df, length (rows df), length (columns df),
       list_all (\<lambda>r. length r = 6) (rows df), map fst (columns df)))
     = Inr (20, 20, 6, True,
            [col_id, col_customer, col_type, col_amount, col_channel, col_status])
   \<and> bind df_generated (column_values col_id) = Inr (map IntV [1001..1020])"
  by code_simp

text \<open>
  C10. In the dataset every transaction type is deposit, withdrawal or transfer; every
  deposit row has a strictly positive amount and every withdrawal or transfer row a strictly
  negative one. So each group of the summary by type has amounts of one sign only: the
  withdrawal and transfer groups are all negative, the deposit group is all positive.
\<close>

theorem amounts_sign_by_type:
  "bind df_generated (\<lambda>df. bind (column_values col_type df) (\<lambda>ts.
     bind (column_values col_amount df) (\<lambda>as.
       Inr (list_all (\<lambda>t. t = deposit \<or> t = withdrawal \<or> t = transfer) ts,
            map snd (filter (\<lambda>(t, a). t = deposit) (zip ts as)),
            list_all positive (map snd (filter (\<lambda>(t, a). t = deposit) (zip ts as))),
            map snd (filter (\<lambda>(t, a). t = withdrawal \<or> t = transfer) (zip ts as)),
            list_all negative
              (map snd (filter (\<lambda>(t, a). t = withdrawal \<or> t = transfer) (zip ts as)))))))
    = Inr (True,
           map IntV [5000, 8000, 12000, 6000, 7000, 9000, 4500, 3000], True,
           map IntV [- 2000, - 1500, - 500, - 3000, - 2200, - 4000,
                     - 1000, - 2500, - 1200, - 3500, - 800, - 1500], True)
   \<and> bind df_cleaned (\<lambda>df. bind (groupby df col_type col_amount) (\<lambda>gs.
       Inr (map (\<lambda>(g, m). (g, length m, list_all positive (map snd m),
                               list_all negative (map snd m))) gs)))
    = Inr [(withdrawal, 6, False, True), (deposit, 8, True, False),
           (transfer, 6, False, True)]"
  by code_simp

subsection \<open>Step 2\<close>

text \<open>
  C6. The missing-value check returns zero for each of the six columns of the dataset. The
  number it returns for a column is the number of missing cells of that column, for any
  table: a table with one missing amount gets the count one.
\<close>

theorem missing_values_zero:
  "map_sum id isnull_sum df_generated =
     Inr [(col_id, 0), (col_customer, 0), (col_type, 0),
          (col_amount, 0), (col_channel, 0), (col_status, 0)]
   \<and> isnull_sum df = map (\<lambda>(k, s). (k, occurrences (series_values s) NaN)) (columns df)
   \<and> map_sum id isnull_sum (DataFrame [(col_amount, PyList [IntV 1, NaN, IntV 3])])
       = Inr [(col_amount, 1)]"
proof (intro conjI)
  show "map_sum id isnull_sum df_generated =
     Inr [(col_id, 0), (col_customer, 0), (col_type, 0),
          (col_amount, 0), (col_channel, 0), (col_status, 0)]"
    by code_simp
  show "isnull_sum df = map (\<lambda>(k, s). (k, occurrences (series_values s) NaN)) (columns df)"
    by (rule isnull_sum_counts)
  show "map_sum id isnull_sum (DataFrame [(col_amount, PyList [IntV 1, NaN, IntV 3])])
       = Inr [(col_amount, 1)]"
    by code_simp
qed

text \<open>
  C5. The duplicate check counts no duplicated row in the dataset: its 20 rows are pairwise
  different, and zero is the count the cleaning stage prints. The count is a count of rows
  identical in every column, for any table: a row is flagged exactly when an earlier row
  equals it, the count is the number of rows less the number of different rows, and it is
  zero exactly when all rows differ. A table with three identical rows gets the count two;
  rows that share an id and differ in the amount are not counted.
\<close>

theorem no_duplicate_rows:
  "map_sum id duplicate_rows df_generated = Inr 0
   \<and> bind df_generated (\<lambda>df. bind (cleaner df) (\<lambda>(df', out). Inr (out ! 1)))
       = Inr (PrintDuplicates 0)
   \<and> map_sum id (\<lambda>df. distinct (rows df)) df_generated = Inr True
   \<and> duplicated df =
       map (\<lambda>i. rows df ! i \<in> set (take i (rows df))) [0..<length (rows df)]
   \<and> duplicate_rows df + card (set (rows df)) = length (rows df)
   \<and> (duplicate_rows df = 0) = distinct (rows df)
   \<and> map_sum id duplicate_rows
       (DataFrame [(col_id, PyList [IntV 1, IntV 1, IntV 3, IntV 1]),
                   (col_amount, PyList [IntV 5, IntV 5, IntV 5, IntV 5])]) = Inr 2
   \<and> map_sum id duplicate_rows
       (DataFrame [(col_id, PyList [IntV 1, IntV 1, IntV 3, IntV 1]),
                   (col_amount, PyList [IntV 5, IntV 6, IntV 5, IntV 7])]) = Inr 0"
proof (intro conjI)
  show "map_sum id duplicate_rows df_generated = Inr 0"
    by code_simp
  show "bind df_generated (\<lambda>df. bind (cleaner df) (\<lambda>(df', out). Inr (out ! 1)))
       = Inr (PrintDuplicates 0)"
    by code_simp
  show "map_sum id (\<lambda>df. distinct (rows df)) df_generated = Inr True"
    by code_simp
  show "duplicated df =
       map (\<lambda>i. rows df ! i \<in> set (take i (rows df))) [0..<length (rows df)]"
    by (rule duplicated_flags)
  show "duplicate_rows df + card (set (rows df)) = length (rows df)"
    by (rule duplicate_rows_count)
  show "(duplicate_rows df = 0) = distinct (rows df)"
    by (rule duplicate_rows_zero)
  show "map_sum id duplicate_rows
       (DataFrame [(col_id, PyList [IntV 1, IntV 1, IntV 3, IntV 1]),
                   (col_amount, PyList [IntV 5, IntV 5, IntV 5, IntV 5])]) = Inr 2"
    by code_simp
  show "map_sum id duplicate_rows
       (DataFrame [(col_id, PyList [IntV 1, IntV 1, IntV 3, IntV 1]),
                   (col_amount, PyList [IntV 5, IntV 6, IntV 5, IntV 7])]) = Inr 0"
    by code_simp
qed

text \<open>
  C1 as stated: the outlier filter flags exactly two rows of the dataset, those with the
  amounts 12000 and -3500. It does not: the filter does not return two rows, and the amounts
  it returns are not 12000 and -3500.
\<close>

theorem outlier_filter_two_rows_counterexample:
  "map_sum id n_rows (bind df_generated abnormal) \<noteq> Inr 2
   \<and> bind (bind df_generated abnormal) (column_values col_amount)
       \<noteq> Inr [IntV 12000, IntV (- 3500)]"
  by code_simp

text \<open>
  C1, amended. The outlier filter (amount above 10000 or below -5000) flags exactly one row
  of the dataset, the row with index 6, transaction 1007 and amount 12000, and that row is
  what the stage prints. For any filter result, when no row is flagged the fixed message is
  printed instead.
\<close>

theorem outlier_filter_flags_one_row:
  "bind (bind df_generated abnormal)
     (\<lambda>ab. Inr (n_rows ab, index ab, rows ab, report_abnormal ab = PrintFrame ab))
     = Inr (1, [6], [[IntV 1007, customer ''C1005'', deposit, IntV 12000, mobile, success]],
            True)
   \<and> (empty_frame ab \<longrightarrow> report_abnormal ab = PrintText no_outliers_message)"
proof (intro conjI)
  show "bind (bind df_generated abnormal)
     (\<lambda>ab. Inr (n_rows ab, index ab, rows ab, report_abnormal ab = PrintFrame ab))
     = Inr (1, [6], [[IntV 1007, customer ''C1005'', deposit, IntV 12000, mobile, success]],
            True)"
    by code_simp
  show "empty_frame ab \<longrightarrow> report_abnormal ab = PrintText no_outliers_message"
    by (simp add: report_abnormal_def)
qed

theorem outlier_filter_flags_one_row_witness:
  "bind (DataFrame [(col_amount, PyList [IntV 100, IntV (- 200)])]) abnormal
     = Inr \<lparr>index = [], columns = [(col_amount, Plain [])]\<rparr>
   \<and> empty_frame \<lparr>index = [], columns = [(col_amount, Plain [])]\<rparr>
   \<and> report_abnormal \<lparr>index = [], columns = [(col_amount, Plain [])]\<rparr>
       = PrintText no_outliers_message"
proof -
  have a: "bind (DataFrame [(col_amount, PyList [IntV 100, IntV (- 200)])]) abnormal
     = Inr \<lparr>index = [], columns = [(col_amount, Plain [])]\<rparr>"
    by code_simp
  have e: "empty_frame \<lparr>index = [], columns = [(col_amount, Plain [])]\<rparr>"
    by (simp add: empty_frame_def)
  from outlier_filter_flags_one_row [of "\<lparr>index = [], columns = [(col_amount, Plain [])]\<rparr>"] e
  have "report_abnormal \<lparr>index = [], columns = [(col_amount, Plain [])]\<rparr>
          = PrintText no_outliers_message"
    by blast
  with a e show ?thesis by blast
qed

text \<open>
  C2. On the dataset the cleaning stage leaves every cell as the generator produced it: the
  table handed on has the same 20 rows, the same index and the same column names. Only the
  types of the transaction type and channel columns change, from object to category.
\<close>

theorem cleaner_keeps_cells:
  "bind df_generated (\<lambda>df. bind (cleaner df) (\<lambda>(df', out).
       Inr (length (rows df'), rows df' = rows df, index df' = index df,
            map fst (columns df') = map fst (columns df), dtypes df, dtypes df')))
   = Inr (20, True, True, True,
       [(col_id, Int64), (col_customer, Object), (col_type, Object),
        (col_amount, Int64), (col_channel, Object), (col_status, Object)],
       [(col_id, Int64), (col_customer, Object), (col_type, Category),
        (col_amount, Int64), (col_channel, Category), (col_status, Object)])"
  by code_simp

subsection \<open>Step 3\<close>

text \<open>
  C7. The groups by transaction type partition the dataset: the summary has 6 withdrawals,
  8 deposits and 6 transfers, 20 rows in all, no index label occurs in two groups or twice
  in one, and the labels of the groups together are the labels of the table.
\<close>

theorem type_groups_partition_rows:
  "bind df_cleaned (\<lambda>df. bind (type_summary df) (\<lambda>ts.
     bind (groupby df col_type col_amount) (\<lambda>gs.
       Inr (map (\<lambda>(g, a). (g, count_agg a)) ts,
            sum_list (map (\<lambda>(g, a). count_agg a) ts),
            distinct (concat (map (\<lambda>(g, m). map fst m) gs)),
            set (concat (map (\<lambda>(g, m). map fst m) gs)) = set (index df),
            n_rows df))))
   = Inr ([(withdrawal, 6), (deposit, 8), (transfer, 6)], 20, True, True, 20)"
  by code_simp

text \<open>
  C9. The channel counts are the value counts of the channel column. For any column, the
  entries of its value counts are in descending order of count, the count of an entry is the
  number of rows holding its value, and every value that occurs in the column has an entry.
  On the dataset the four channels have five rows each.
\<close>

theorem channel_counts_descending:
  "channel_count df = map_sum id value_counts (getitem df col_channel)
   \<and> sorted_wrt (\<lambda>a b. snd b \<le> snd a) (value_counts s)
   \<and> map snd (value_counts s) = map (occurrences (series_values s)) (map fst (value_counts s))
   \<and> set (filter (\<lambda>c. c \<noteq> NaN) (series_values s)) \<subseteq> fst ` set (value_counts s)
   \<and> map_sum id set (bind df_cleaned channel_count)
       = Inr (set [(atm, 5), (mobile, 5), (counter, 5), (online, 5)])
   \<and> map_sum id (map snd) (bind df_cleaned channel_count) = Inr [5, 5, 5, 5]"
proof (intro conjI)
  show "channel_count df = map_sum id value_counts (getitem df col_channel)"
    by (rule channel_count_value_counts)
  show "sorted_wrt (\<lambda>a b. snd b \<le> snd a) (value_counts s)"
    by (rule value_counts_descending)
  show "map snd (value_counts s) =
        map (occurrences (series_values s)) (map fst (value_counts s))"
    by (rule value_counts_counts)
  show "set (filter (\<lambda>c. c \<noteq> NaN) (series_values s)) \<subseteq> fst ` set (value_counts s)"
    by (rule value_counts_complete)
  show "map_sum id set (bind df_cleaned channel_count)
       = Inr (set [(atm, 5), (mobile, 5), (counter, 5), (online, 5)])"
    by code_simp
  show "map_sum id (map snd) (bind df_cleaned channel_count) = Inr [5, 5, 5, 5]"
    by code_simp
qed

text \<open>
  C4. Filtering the dataset for the rows whose status is failure returns exactly one row:
  the row with index 4, transaction 1005, customer C1004 and amount -500.
\<close>

theorem failure_filter_one_row:
  "bind (bind df_cleaned failed_transactions) (\<lambda>f. Inr (n_rows f, index f, rows f))
     = Inr (1, [4], [[IntV 1005, customer ''C1004'', withdrawal, IntV (- 500), atm, failure]])
   \<and> bind (bind df_cleaned failed_transactions) (column_values col_customer)
       = Inr [customer ''C1004'']
   \<and> bind (bind df_cleaned failed_transactions) (column_values col_amount)
       = Inr [IntV (- 500)]"
  by code_simp

end
